theory Spec2Isabelle
  imports Main "HOL-Library.AList"
begin

section \<open>The optimizer wrapper of videoanalyst/optim/optimizer/optimizer_base.py\<close>

text \<open>
  A shallow embedding of class \<open>OptimizerBase\<close>. Python objects that the class only
  hands around (policy and multiplier objects, the model, parameter groups, learning-rate
  values, the configuration node) are opaque values of a type \<open>'x\<close>; the underlying
  optimizer is the one external object whose state the wrapper's methods change, so its
  state is a value of a type \<open>'o\<close>. Every function that the module imports, and every
  method of an external object, is a field of the record \<open>externals\<close> and so a parameter
  of the embedding. An exception is a value of \<open>error\<close>; a method returns its outcome
  together with the heap and the instance after the call, because a Python exception
  does not undo the assignments made before it.
\<close>

subsection \<open>Values, dicts, exceptions\<close>

datatype error = KeyError | TypeError | AttributeError | OtherError string

datatype 'x pyval =
    VNone
  | VBool bool
  | VInt int
  | VStr string
  | VList "'x pyval list"
  | VDict "(string \<times> 'x pyval) list"
  | VObj 'x

text \<open>
  A dict with string keys, in insertion order. \<open>AList.update\<close> is Python's item
  assignment: an existing key keeps its position and gets the new value, a new key is
  appended.
\<close>

type_synonym 'x dict = "(string \<times> 'x pyval) list"

definition dict_keys :: "'x dict \<Rightarrow> string list" where
  "dict_keys d = map fst d"

definition dict_contains :: "'x dict \<Rightarrow> string \<Rightarrow> bool" where
  "dict_contains d k = (k \<in> set (dict_keys d))"

definition dict_getitem :: "'x dict \<Rightarrow> string \<Rightarrow> error + 'x pyval" where
  "dict_getitem d k = (case map_of d k of None \<Rightarrow> Inl KeyError | Some v \<Rightarrow> Inr v)"

definition dict_setitem :: "'x dict \<Rightarrow> string \<Rightarrow> 'x pyval \<Rightarrow> 'x dict" where
  "dict_setitem d k v = AList.update k v d"

subsection \<open>The store of shared dict objects\<close>

text \<open>
  \<open>self._hyper_params\<close> is a reference to a dict object, and \<open>get_hps\<close> returns that
  reference; the dict objects live in a heap indexed by address. The dict of
  \<open>self._state\<close> is created by \<open>__init__\<close> and no method passes it on, so it is a field
  held by value.
\<close>

type_synonym addr = nat

type_synonym 'x heap = "addr \<Rightarrow> 'x dict"

text \<open>
  The class attribute \<open>default_hyper_params\<close> is bound to one dict object, created when
  the class body runs: \<open>dict(lr_policy=[], lr_multiplier=[])\<close>.
\<close>

definition default_hyper_params :: addr where
  "default_hyper_params = 0"

definition module_heap :: "'x heap" where
  "module_heap =
     (\<lambda>a. [])(default_hyper_params := [(''lr_policy'', VList []), (''lr_multiplier'', VList [])])"

subsection \<open>The instance and the external code\<close>

text \<open>The attributes \<open>_hyper_params\<close>, \<open>_state\<close>, \<open>_cfg\<close>, \<open>_model\<close>, \<open>_optimizer\<close>.\<close>

record ('x, 'o) optimizer_base =
  self_hyper_params :: addr
  self_state :: "'x dict"
  self_cfg :: "'x pyval"
  self_model :: "'x pyval"
  self_optimizer :: "'o option"

text \<open>
  The imported functions \<open>build_lr_policy\<close>, \<open>build_lr_multiplier\<close> and \<open>schedule_lr\<close>,
  the methods \<open>get_lr\<close> of a policy object, \<open>multiply_lr\<close> and
  \<open>divide_into_param_groups\<close> of a multiplier object, \<open>parameters\<close> of the model,
  \<open>__len__\<close> of an opaque object, and \<open>zero_grad\<close>, \<open>step\<close> and \<open>state_dict\<close> of the
  underlying optimizer. Each may raise. Those that are handed the optimizer return its
  state after the call; \<open>schedule_lr\<close> and \<open>multiply_lr\<close> receive \<open>self._optimizer\<close> as
  it is, which may be \<open>None\<close>.
\<close>

record ('x, 'o) externals =
  build_lr_policy :: "'x pyval \<Rightarrow> error + 'x pyval"
  build_lr_multiplier :: "'x pyval \<Rightarrow> error + 'x pyval"
  schedule_lr :: "'o option \<Rightarrow> 'x pyval \<Rightarrow> (error + unit) \<times> 'o option"
  get_lr :: "'x \<Rightarrow> int \<Rightarrow> int \<Rightarrow> error + 'x pyval"
  multiply_lr :: "'x \<Rightarrow> 'o option \<Rightarrow> (error + unit) \<times> 'o option"
  divide_into_param_groups :: "'x \<Rightarrow> 'x pyval \<Rightarrow> error + 'x pyval"
  parameters :: "'x \<Rightarrow> error + 'x pyval"
  obj_len :: "'x \<Rightarrow> error + nat"
  optimizer_zero_grad :: "'o \<Rightarrow> (error + 'x pyval) \<times> 'o"
  optimizer_step :: "'o \<Rightarrow> (error + 'x pyval) \<times> 'o"
  optimizer_state_dict :: "'o \<Rightarrow> (error + 'x pyval) \<times> 'o"

text \<open>\<open>len(v)\<close>: defined on strings, lists and dicts, a \<open>TypeError\<close> on the other builtins.\<close>

fun py_len :: "('x, 'o) externals \<Rightarrow> 'x pyval \<Rightarrow> error + nat" where
  "py_len ext VNone = Inl TypeError"
| "py_len ext (VBool b) = Inl TypeError"
| "py_len ext (VInt i) = Inl TypeError"
| "py_len ext (VStr s) = Inr (length s)"
| "py_len ext (VList xs) = Inr (length xs)"
| "py_len ext (VDict d) = Inr (length d)"
| "py_len ext (VObj x) = obj_len ext x"

text \<open>
  A call of a method that only external objects have: on a builtin value (\<open>None\<close>
  included) the attribute lookup raises \<open>AttributeError\<close>.
\<close>

fun call_method :: "'x pyval \<Rightarrow> ('x \<Rightarrow> error + 'r) \<Rightarrow> error + 'r" where
  "call_method (VObj x) m = m x"
| "call_method v m = Inl AttributeError"

subsection \<open>The methods\<close>

definition init :: "'x pyval \<Rightarrow> ('x, 'o) optimizer_base" where
  "init cfg =
     \<lparr> self_hyper_params = default_hyper_params,
       self_state = [],
       self_cfg = cfg,
       self_model = VNone,
       self_optimizer = None \<rparr>"

definition get_hps :: "('x, 'o) optimizer_base \<Rightarrow> addr" where
  "get_hps self = self_hyper_params self"

text \<open>
  The loop of \<open>set_hps\<close> over the keys of \<open>hps\<close>, in their order. The argument \<open>hps\<close> is
  taken by value: the loop assigns only to keys that \<open>self._hyper_params\<close> already has, so
  when \<open>hps\<close> is that very dict every assignment writes back the value it read.
\<close>

fun set_hps_loop ::
  "'x heap \<Rightarrow> addr \<Rightarrow> 'x dict \<Rightarrow> string list \<Rightarrow> (error + unit) \<times> 'x heap" where
  "set_hps_loop h r hps [] = (Inr (), h)"
| "set_hps_loop h r hps (key # keys) =
     (if \<not> dict_contains (h r) key then (Inl KeyError, h)
      else (case dict_getitem hps key of
              Inl e \<Rightarrow> (Inl e, h)
            | Inr v \<Rightarrow> set_hps_loop (h(r := dict_setitem (h r) key v)) r hps keys))"

definition set_hps ::
  "'x heap \<Rightarrow> ('x, 'o) optimizer_base \<Rightarrow> 'x dict
     \<Rightarrow> (error + unit) \<times> 'x heap \<times> ('x, 'o) optimizer_base" where
  "set_hps h self hps =
     (case set_hps_loop h (self_hyper_params self) hps (dict_keys hps) of
        (res, h') \<Rightarrow> (res, h', self))"

text \<open>The block of \<open>update_params\<close> headed \<open># lr_policy\<close>.\<close>

definition update_lr_policy ::
  "('x, 'o) externals \<Rightarrow> 'x heap \<Rightarrow> ('x, 'o) optimizer_base
     \<Rightarrow> error + ('x, 'o) optimizer_base" where
  "update_lr_policy ext h self =
     (case dict_getitem (h (self_hyper_params self)) ''lr_policy'' of
        Inl e \<Rightarrow> Inl e
      | Inr lr_policy_cfg \<Rightarrow>
          (case py_len ext lr_policy_cfg of
             Inl e \<Rightarrow> Inl e
           | Inr n \<Rightarrow>
               if n > 0 then
                 (case build_lr_policy ext lr_policy_cfg of
                    Inl e \<Rightarrow> Inl e
                  | Inr lr_policy \<Rightarrow>
                      Inr (self\<lparr>self_state :=
                                   dict_setitem (self_state self) ''lr_policy'' lr_policy\<rparr>))
               else Inr self))"

text \<open>The block of \<open>update_params\<close> headed \<open># lr_multiplier\<close>.\<close>

definition update_lr_multiplier ::
  "('x, 'o) externals \<Rightarrow> 'x heap \<Rightarrow> ('x, 'o) optimizer_base
     \<Rightarrow> error + ('x, 'o) optimizer_base" where
  "update_lr_multiplier ext h self =
     (case dict_getitem (h (self_hyper_params self)) ''lr_multiplier'' of
        Inl e \<Rightarrow> Inl e
      | Inr lr_multiplier_cfg \<Rightarrow>
          (case py_len ext lr_multiplier_cfg of
             Inl e \<Rightarrow> Inl e
           | Inr n \<Rightarrow>
               if n > 0 then
                 (case build_lr_multiplier ext lr_multiplier_cfg of
                    Inl e \<Rightarrow> Inl e
                  | Inr lr_multiplier \<Rightarrow>
                      Inr (self\<lparr>self_state :=
                                   dict_setitem (self_state self) ''lr_multiplier'' lr_multiplier\<rparr>))
               else Inr self))"

definition update_params ::
  "('x, 'o) externals \<Rightarrow> 'x heap \<Rightarrow> ('x, 'o) optimizer_base
     \<Rightarrow> (error + unit) \<times> 'x heap \<times> ('x, 'o) optimizer_base" where
  "update_params ext h self =
     (case update_lr_policy ext h self of
        Inl e \<Rightarrow> (Inl e, h, self)
      | Inr self1 \<Rightarrow>
          (case update_lr_multiplier ext h self1 of
             Inl e \<Rightarrow> (Inl e, h, self1)
           | Inr self2 \<Rightarrow> (Inr (), h, self2)))"

definition set_model ::
  "'x heap \<Rightarrow> ('x, 'o) optimizer_base \<Rightarrow> 'x pyval
     \<Rightarrow> (error + unit) \<times> 'x heap \<times> ('x, 'o) optimizer_base" where
  "set_model h self model = (Inr (), h, self\<lparr>self_model := model\<rparr>)"

definition build_optimizer ::
  "('x, 'o) externals \<Rightarrow> 'x heap \<Rightarrow> ('x, 'o) optimizer_base
     \<Rightarrow> (error + unit) \<times> 'x heap \<times> ('x, 'o) optimizer_base" where
  "build_optimizer ext h self =
     (case (if dict_contains (self_state self) ''lr_multiplier'' then
              (case dict_getitem (self_state self) ''lr_multiplier'' of
                 Inl e \<Rightarrow> Inl e
               | Inr lr_multiplier \<Rightarrow>
                   call_method lr_multiplier
                     (\<lambda>m. divide_into_param_groups ext m (self_model self)))
            else call_method (self_model self) (parameters ext)) of
        Inl e \<Rightarrow> (Inl e, h, self)
      | Inr params \<Rightarrow>
          (Inr (), h, self\<lparr>self_state := dict_setitem (self_state self) ''params'' params\<rparr>))"

text \<open>
  \<open>zero_grad\<close> and \<open>step\<close> drop what the optimizer's method returns; \<open>state_dict\<close> returns
  it. With \<open>self._optimizer\<close> still \<open>None\<close> the attribute lookup raises.
\<close>

definition zero_grad ::
  "('x, 'o) externals \<Rightarrow> 'x heap \<Rightarrow> ('x, 'o) optimizer_base
     \<Rightarrow> (error + unit) \<times> 'x heap \<times> ('x, 'o) optimizer_base" where
  "zero_grad ext h self =
     (case self_optimizer self of
        None \<Rightarrow> (Inl AttributeError, h, self)
      | Some opt \<Rightarrow>
          (case optimizer_zero_grad ext opt of
             (Inl e, opt') \<Rightarrow> (Inl e, h, self\<lparr>self_optimizer := Some opt'\<rparr>)
           | (Inr v, opt') \<Rightarrow> (Inr (), h, self\<lparr>self_optimizer := Some opt'\<rparr>)))"

definition step ::
  "('x, 'o) externals \<Rightarrow> 'x heap \<Rightarrow> ('x, 'o) optimizer_base
     \<Rightarrow> (error + unit) \<times> 'x heap \<times> ('x, 'o) optimizer_base" where
  "step ext h self =
     (case self_optimizer self of
        None \<Rightarrow> (Inl AttributeError, h, self)
      | Some opt \<Rightarrow>
          (case optimizer_step ext opt of
             (Inl e, opt') \<Rightarrow> (Inl e, h, self\<lparr>self_optimizer := Some opt'\<rparr>)
           | (Inr v, opt') \<Rightarrow> (Inr (), h, self\<lparr>self_optimizer := Some opt'\<rparr>)))"

definition state_dict ::
  "('x, 'o) externals \<Rightarrow> 'x heap \<Rightarrow> ('x, 'o) optimizer_base
     \<Rightarrow> (error + 'x pyval) \<times> 'x heap \<times> ('x, 'o) optimizer_base" where
  "state_dict ext h self =
     (case self_optimizer self of
        None \<Rightarrow> (Inl AttributeError, h, self)
      | Some opt \<Rightarrow>
          (case optimizer_state_dict ext opt of
             (res, opt') \<Rightarrow> (res, h, self\<lparr>self_optimizer := Some opt'\<rparr>)))"

text \<open>
  The first block of \<open>schedule\<close>: with a policy in \<open>self._state\<close>, ask it for the learning
  rate, hand the rate to \<open>schedule_lr\<close> and record it in \<open>schedule_info\<close>, which starts
  as the empty dict.
\<close>

definition schedule_lr_policy ::
  "('x, 'o) externals \<Rightarrow> ('x, 'o) optimizer_base \<Rightarrow> int \<Rightarrow> int
     \<Rightarrow> (error + 'x dict) \<times> ('x, 'o) optimizer_base" where
  "schedule_lr_policy ext self epoch iteration =
     (if dict_contains (self_state self) ''lr_policy'' then
        (case dict_getitem (self_state self) ''lr_policy'' of
           Inl e \<Rightarrow> (Inl e, self)
         | Inr lr_policy \<Rightarrow>
             (case call_method lr_policy (\<lambda>p. get_lr ext p epoch iteration) of
                Inl e \<Rightarrow> (Inl e, self)
              | Inr lr \<Rightarrow>
                  (case schedule_lr ext (self_optimizer self) lr of
                     (Inl e, opt') \<Rightarrow> (Inl e, self\<lparr>self_optimizer := opt'\<rparr>)
                   | (Inr u, opt') \<Rightarrow>
                       (Inr (dict_setitem [] ''lr'' lr), self\<lparr>self_optimizer := opt'\<rparr>))))
      else (Inr [], self))"

text \<open>The second block, headed \<open># apply learning rate multiplication\<close>.\<close>

definition schedule_lr_multiplier ::
  "('x, 'o) externals \<Rightarrow> ('x, 'o) optimizer_base
     \<Rightarrow> (error + unit) \<times> ('x, 'o) optimizer_base" where
  "schedule_lr_multiplier ext self =
     (if dict_contains (self_state self) ''lr_multiplier'' then
        (case dict_getitem (self_state self) ''lr_multiplier'' of
           Inl e \<Rightarrow> (Inl e, self)
         | Inr lr_multiplier \<Rightarrow>
             (case lr_multiplier of
                VObj m \<Rightarrow>
                  (case multiply_lr ext m (self_optimizer self) of
                     (res, opt') \<Rightarrow> (res, self\<lparr>self_optimizer := opt'\<rparr>))
              | _ \<Rightarrow> (Inl AttributeError, self)))
      else (Inr (), self))"

definition schedule ::
  "('x, 'o) externals \<Rightarrow> 'x heap \<Rightarrow> ('x, 'o) optimizer_base \<Rightarrow> int \<Rightarrow> int
     \<Rightarrow> (error + 'x dict) \<times> 'x heap \<times> ('x, 'o) optimizer_base" where
  "schedule ext h self epoch iteration =
     (case schedule_lr_policy ext self epoch iteration of
        (Inl e, self1) \<Rightarrow> (Inl e, h, self1)
      | (Inr schedule_info, self1) \<Rightarrow>
          (case schedule_lr_multiplier ext self1 of
             (Inl e, self2) \<Rightarrow> (Inl e, h, self2)
           | (Inr u, self2) \<Rightarrow> (Inr schedule_info, h, self2)))"

subsection \<open>A concrete instance of the external code\<close>

text \<open>
  For evaluating the methods on concrete inputs: objects are numbered, the optimizer's
  state is the list of its parameter groups' learning rates. The policy (object 1)
  answers \<open>100 - epoch\<close>, \<open>schedule_lr\<close> sets every group to the given rate, the
  multiplier (object 2) doubles every group.
\<close>

definition demo_externals :: "(nat, int list) externals" where
  "demo_externals =
     \<lparr> build_lr_policy = (\<lambda>cfg. Inr (VObj 1)),
       build_lr_multiplier = (\<lambda>cfg. Inr (VObj 2)),
       schedule_lr = (\<lambda>opt lr.
          case (opt, lr) of
            (Some groups, VInt n) \<Rightarrow> (Inr (), Some (map (\<lambda>g. n) groups))
          | _ \<Rightarrow> (Inl AttributeError, opt)),
       get_lr = (\<lambda>p epoch iteration.
          if p = 1 then Inr (VInt (100 - epoch)) else Inl AttributeError),
       multiply_lr = (\<lambda>m opt.
          case opt of
            Some groups \<Rightarrow> (Inr (), Some (map (\<lambda>g. 2 * g) groups))
          | None \<Rightarrow> (Inl AttributeError, None)),
       divide_into_param_groups = (\<lambda>m model. Inr (VList [model, VObj m])),
       parameters = (\<lambda>mdl. Inr (VList [VObj mdl])),
       obj_len = (\<lambda>x. Inl TypeError),
       optimizer_zero_grad = (\<lambda>groups. (Inr VNone, groups)),
       optimizer_step = (\<lambda>groups. (Inr (VInt 0), map (\<lambda>g. g - 1) groups)),
       optimizer_state_dict = (\<lambda>groups. (Inr (VList (map VInt groups)), groups)) \<rparr>"

subsection \<open>Reading the result of a method\<close>

abbreviation outcome :: "'r \<times> 'h \<times> 's \<Rightarrow> 'r" where
  "outcome res \<equiv> fst res"

abbreviation heap_after :: "'r \<times> 'h \<times> 's \<Rightarrow> 'h" where
  "heap_after res \<equiv> fst (snd res)"

abbreviation self_after :: "'r \<times> 'h \<times> 's \<Rightarrow> 's" where
  "self_after res \<equiv> snd (snd res)"

subsection \<open>Concrete instances\<close>

text \<open>
  Instances as \<open>update_params\<close> and \<open>set_model\<close> leave them, with an optimizer of two
  parameter groups installed: one with a policy and a multiplier in \<open>_state\<close>, one with a
  multiplier only, one with neither.
\<close>

definition both_self :: "(nat, int list) optimizer_base" where
  "both_self =
     \<lparr> self_hyper_params = default_hyper_params,
       self_state = [(''lr_policy'', VObj 1), (''lr_multiplier'', VObj 2)],
       self_cfg = VNone,
       self_model = VObj 5,
       self_optimizer = Some [10, 20] \<rparr>"

definition multiplier_self :: "(nat, int list) optimizer_base" where
  "multiplier_self =
     \<lparr> self_hyper_params = default_hyper_params,
       self_state = [(''lr_multiplier'', VObj 2)],
       self_cfg = VNone,
       self_model = VObj 5,
       self_optimizer = Some [10, 20] \<rparr>"

definition plain_self :: "(nat, int list) optimizer_base" where
  "plain_self =
     \<lparr> self_hyper_params = default_hyper_params,
       self_state = [],
       self_cfg = VNone,
       self_model = VObj 5,
       self_optimizer = Some [10, 20] \<rparr>"

text \<open>
  A run on a fresh instance: \<open>set_hps\<close> with a non-empty \<open>lr_policy\<close> list and
  \<open>update_params\<close>, then \<open>set_hps\<close> with the empty list again.
\<close>

definition policy_configured ::
  "(error + unit) \<times> nat heap \<times> (nat, int list) optimizer_base" where
  "policy_configured =
     update_params demo_externals
       (heap_after (set_hps module_heap (init VNone :: (nat, int list) optimizer_base)
          [(''lr_policy'', VList [VStr ''linear''])]))
       (init VNone)"

definition policy_cleared ::
  "(error + unit) \<times> nat heap \<times> (nat, int list) optimizer_base" where
  "policy_cleared =
     set_hps (heap_after policy_configured) (self_after policy_configured)
       [(''lr_policy'', VList [])]"

section \<open>Properties\<close>

subsection \<open>Dict operations\<close>

lemma dict_keys_setitem:
  "dict_contains d k \<Longrightarrow> dict_keys (dict_setitem d k v) = dict_keys d"
  by (simp add: dict_contains_def dict_keys_def dict_setitem_def update_keys)

lemma dict_contains_setitem:
  "dict_contains d k \<Longrightarrow> dict_contains (dict_setitem d k v) = dict_contains d"
  by (rule ext) (simp add: dict_contains_def dict_keys_setitem[unfolded dict_contains_def])

lemma getitem_setitem:
  "dict_getitem (dict_setitem d k v) k' = (if k' = k then Inr v else dict_getitem d k')"
  by (simp add: dict_getitem_def dict_setitem_def update_conv')

lemma contains_getitem:
  "dict_contains d k \<longleftrightarrow> (\<exists>v. dict_getitem d k = Inr v)"
proof (cases "map_of d k")
  case None
  then have "k \<notin> fst ` set d"
    by (simp add: map_of_eq_None_iff)
  with None show ?thesis
    by (simp add: dict_contains_def dict_keys_def dict_getitem_def)
next
  case (Some v)
  then have "k \<in> fst ` set d"
    by (metis map_of_eq_None_iff option.distinct(1))
  with Some show ?thesis
    by (simp add: dict_contains_def dict_keys_def dict_getitem_def)
qed

subsection \<open>The loop of \<open>set_hps\<close>\<close>

text \<open>
  The loop stops with \<open>KeyError\<close> at the first key that the hyper-parameter dict does not
  have. The keys before it have been assigned by then; nothing else has changed.
\<close>

lemma set_hps_loop_char:
  "set keys \<subseteq> set (dict_keys hps) \<Longrightarrow>
   fst (set_hps_loop h r hps keys) =
     (if set keys \<subseteq> set (dict_keys (h r)) then Inr () else Inl KeyError) \<and>
   (\<forall>a. a \<noteq> r \<longrightarrow> snd (set_hps_loop h r hps keys) a = h a) \<and>
   dict_keys (snd (set_hps_loop h r hps keys) r) = dict_keys (h r) \<and>
   (\<forall>k. dict_getitem (snd (set_hps_loop h r hps keys) r) k =
      (if k \<in> set (takeWhile (dict_contains (h r)) keys) then dict_getitem hps k
       else dict_getitem (h r) k)) \<and>
   (takeWhile (dict_contains (h r)) keys = [] \<longrightarrow> snd (set_hps_loop h r hps keys) = h)"
proof (induction keys arbitrary: h)
  case Nil
  then show ?case by simp
next
  case (Cons key keys)
  show ?case
  proof (cases "dict_contains (h r) key")
    case False
    then show ?thesis by (simp add: dict_contains_def)
  next
    case True
    from Cons.prems have "dict_contains hps key"
      by (simp add: dict_contains_def)
    then obtain v where v: "dict_getitem hps key = Inr v"
      by (auto simp: contains_getitem)
    define h1 where "h1 = h(r := dict_setitem (h r) key v)"
    have step: "set_hps_loop h r hps (key # keys) = set_hps_loop h1 r hps keys"
      using True v by (simp add: h1_def)
    have keys1: "dict_keys (h1 r) = dict_keys (h r)"
      using True by (simp add: h1_def dict_keys_setitem)
    have cont1: "dict_contains (h1 r) = dict_contains (h r)"
      using True by (simp add: h1_def dict_contains_setitem)
    have get1: "\<And>k. dict_getitem (h1 r) k = (if k = key then Inr v else dict_getitem (h r) k)"
      by (simp add: h1_def getitem_setitem)
    from Cons.prems have sub: "set keys \<subseteq> set (dict_keys hps)" by simp
    note IH = Cons.IH[OF sub, of h1]
    from IH have ih_a: "fst (set_hps_loop h1 r hps keys) =
        (if set keys \<subseteq> set (dict_keys (h1 r)) then Inr () else Inl KeyError)"
      by blast
    from IH have ih_b: "\<And>a. a \<noteq> r \<Longrightarrow> snd (set_hps_loop h1 r hps keys) a = h1 a"
      by blast
    from IH have ih_c: "dict_keys (snd (set_hps_loop h1 r hps keys) r) = dict_keys (h1 r)"
      by blast
    from IH have ih_d: "\<And>k. dict_getitem (snd (set_hps_loop h1 r hps keys) r) k =
        (if k \<in> set (takeWhile (dict_contains (h1 r)) keys) then dict_getitem hps k
         else dict_getitem (h1 r) k)"
      by blast
    have key_in: "key \<in> set (dict_keys (h r))"
      using True by (simp add: dict_contains_def)
    have a: "fst (set_hps_loop h r hps (key # keys)) =
        (if set (key # keys) \<subseteq> set (dict_keys (h r)) then Inr () else Inl KeyError)"
      using ih_a key_in by (simp only: step keys1) simp
    have b: "\<forall>a. a \<noteq> r \<longrightarrow> snd (set_hps_loop h r hps (key # keys)) a = h a"
    proof (intro allI impI)
      fix a assume "a \<noteq> r"
      then have "h1 a = h a" by (simp add: h1_def)
      with ih_b[OF \<open>a \<noteq> r\<close>] show "snd (set_hps_loop h r hps (key # keys)) a = h a"
        by (simp only: step)
    qed
    have c: "dict_keys (snd (set_hps_loop h r hps (key # keys)) r) = dict_keys (h r)"
      using ih_c by (simp only: step keys1)
    have d: "\<forall>k. dict_getitem (snd (set_hps_loop h r hps (key # keys)) r) k =
      (if k \<in> set (takeWhile (dict_contains (h r)) (key # keys)) then dict_getitem hps k
       else dict_getitem (h r) k)"
    proof
      fix k
      show "dict_getitem (snd (set_hps_loop h r hps (key # keys)) r) k =
        (if k \<in> set (takeWhile (dict_contains (h r)) (key # keys)) then dict_getitem hps k
         else dict_getitem (h r) k)"
        using ih_d[of k] True v by (simp only: step cont1 get1) auto
    qed
    have e: "takeWhile (dict_contains (h r)) (key # keys) = [] \<longrightarrow>
        snd (set_hps_loop h r hps (key # keys)) = h"
      using True by simp
    from a b c d e show ?thesis by blast
  qed
qed

lemma set_hps_char:
  "outcome (set_hps h self hps) =
     (if set (dict_keys hps) \<subseteq> set (dict_keys (h (get_hps self))) then Inr () else Inl KeyError) \<and>
   self_after (set_hps h self hps) = self \<and>
   (\<forall>a. a \<noteq> get_hps self \<longrightarrow> heap_after (set_hps h self hps) a = h a) \<and>
   dict_keys (heap_after (set_hps h self hps) (get_hps self)) = dict_keys (h (get_hps self)) \<and>
   (\<forall>k. dict_getitem (heap_after (set_hps h self hps) (get_hps self)) k =
      (if k \<in> set (takeWhile (dict_contains (h (get_hps self))) (dict_keys hps))
       then dict_getitem hps k else dict_getitem (h (get_hps self)) k)) \<and>
   (takeWhile (dict_contains (h (get_hps self))) (dict_keys hps) = [] \<longrightarrow>
      heap_after (set_hps h self hps) = h)"
  using set_hps_loop_char[of "dict_keys hps" hps h "self_hyper_params self"]
  by (simp add: set_hps_def get_hps_def split_beta)

subsection \<open>Setting hyper-parameters\<close>

text \<open>
  Claim C1, as the code has it. When \<open>hps\<close> has a key that the hyper-parameter dict does
  not have, \<open>set_hps\<close> raises \<open>KeyError\<close>. The instance, every other dict and the key set
  of the hyper-parameter dict are as before the call. An entry of the hyper-parameter
  dict has the value of \<open>hps\<close> when its key comes before the first unknown key of \<open>hps\<close>
  (in iteration order), and its old value otherwise. In particular the hyper-parameter
  state is what \<open>get_hps\<close> gave before the call when the first key of \<open>hps\<close> is unknown.
\<close>

theorem set_hps_unknown_key:
  assumes "\<not> set (dict_keys hps) \<subseteq> set (dict_keys (h (get_hps self)))"
  shows "outcome (set_hps h self hps) = Inl KeyError \<and>
    self_after (set_hps h self hps) = self \<and>
    (\<forall>a. a \<noteq> get_hps self \<longrightarrow> heap_after (set_hps h self hps) a = h a) \<and>
    dict_keys (heap_after (set_hps h self hps) (get_hps self)) = dict_keys (h (get_hps self)) \<and>
    (\<forall>k. dict_getitem (heap_after (set_hps h self hps) (get_hps self)) k =
       (if k \<in> set (takeWhile (dict_contains (h (get_hps self))) (dict_keys hps))
        then dict_getitem hps k else dict_getitem (h (get_hps self)) k)) \<and>
    (\<not> dict_contains (h (get_hps self)) (hd (dict_keys hps)) \<longrightarrow>
       heap_after (set_hps h self hps) = h)"
proof -
  from assms have nonempty: "dict_keys hps \<noteq> []"
    by auto
  have first: "takeWhile (dict_contains (h (get_hps self))) (dict_keys hps) = []"
    if "\<not> dict_contains (h (get_hps self)) (hd (dict_keys hps))"
    using that nonempty by (cases "dict_keys hps") simp_all
  from set_hps_char[of h self hps] assms first show ?thesis
    by simp
qed

theorem set_hps_unknown_key_witness:
  "\<not> set (dict_keys [(''lr_multiplier'', VList [VInt 2]), (''momentum'', VInt 9), (''lr_policy'', VList [VInt 1])])
       \<subseteq> set (dict_keys ((module_heap :: nat heap) (get_hps (init VNone :: (nat, int list) optimizer_base)))) \<and>
   outcome (set_hps (module_heap :: nat heap) (init VNone :: (nat, int list) optimizer_base)
      [(''lr_multiplier'', VList [VInt 2]), (''momentum'', VInt 9), (''lr_policy'', VList [VInt 1])])
     = Inl KeyError \<and>
   heap_after (set_hps (module_heap :: nat heap) (init VNone :: (nat, int list) optimizer_base)
      [(''lr_multiplier'', VList [VInt 2]), (''momentum'', VInt 9), (''lr_policy'', VList [VInt 1])])
      default_hyper_params
     = [(''lr_policy'', VList []), (''lr_multiplier'', VList [VInt 2])] \<and>
   outcome (set_hps (module_heap :: nat heap) (init VNone :: (nat, int list) optimizer_base)
      [(''momentum'', VInt 9), (''lr_policy'', VList [VInt 1])])
     = Inl KeyError \<and>
   heap_after (set_hps (module_heap :: nat heap) (init VNone :: (nat, int list) optimizer_base)
      [(''momentum'', VInt 9), (''lr_policy'', VList [VInt 1])])
     = module_heap"
  using
    set_hps_unknown_key[of
      "[(''lr_multiplier'', VList [VInt 2]), (''momentum'', VInt 9), (''lr_policy'', VList [VInt 1])]"
      "module_heap :: nat heap" "init VNone :: (nat, int list) optimizer_base"]
    set_hps_unknown_key[of
      "[(''momentum'', VInt 9), (''lr_policy'', VList [VInt 1])]"
      "module_heap :: nat heap" "init VNone :: (nat, int list) optimizer_base"]
  by (simp add: set_hps_def init_def get_hps_def module_heap_def default_hyper_params_def
      dict_keys_def dict_contains_def dict_getitem_def dict_setitem_def)

text \<open>
  The claim as the specification words it fails: a known key that comes before the
  unknown one has been assigned when the \<open>KeyError\<close> is raised. Here \<open>lr_policy\<close> was
  \<open>[]\<close> before the call and is \<open>[1]\<close> after it.
\<close>

theorem set_hps_unknown_key_counterexample:
  "\<not> dict_contains ((module_heap :: nat heap) (get_hps (init VNone :: (nat, int list) optimizer_base)))
       ''momentum'' \<and>
   outcome (set_hps (module_heap :: nat heap) (init VNone :: (nat, int list) optimizer_base)
      [(''lr_policy'', VList [VInt 1]), (''momentum'', VInt 9)])
     = Inl KeyError \<and>
   dict_getitem ((module_heap :: nat heap) (get_hps (init VNone :: (nat, int list) optimizer_base)))
      ''lr_policy'' = Inr (VList []) \<and>
   dict_getitem
     (heap_after (set_hps (module_heap :: nat heap) (init VNone :: (nat, int list) optimizer_base)
        [(''lr_policy'', VList [VInt 1]), (''momentum'', VInt 9)])
       (get_hps (init VNone :: (nat, int list) optimizer_base)))
     ''lr_policy'' = Inr (VList [VInt 1])"
  by (simp add: set_hps_def init_def get_hps_def module_heap_def default_hyper_params_def
      dict_keys_def dict_contains_def dict_getitem_def dict_setitem_def)

text \<open>
  Claim C2. \<open>set_hps\<close> returns normally exactly when every key of \<open>hps\<close> is a key of the
  hyper-parameter dict, and raises \<open>KeyError\<close> otherwise. After a normal return the dict
  that \<open>get_hps\<close> gives maps every key of \<open>hps\<close> to the value \<open>hps\<close> has for it.
\<close>

theorem set_hps_known_keys:
  "outcome (set_hps h self hps) =
     (if set (dict_keys hps) \<subseteq> set (dict_keys (h (get_hps self))) then Inr () else Inl KeyError) \<and>
   (set (dict_keys hps) \<subseteq> set (dict_keys (h (get_hps self))) \<longrightarrow>
      (\<forall>k \<in> set (dict_keys hps).
         dict_getitem (heap_after (set_hps h self hps) (get_hps (self_after (set_hps h self hps)))) k
           = dict_getitem hps k))"
proof (intro conjI impI ballI)
  show "outcome (set_hps h self hps) =
     (if set (dict_keys hps) \<subseteq> set (dict_keys (h (get_hps self))) then Inr () else Inl KeyError)"
    using set_hps_char[of h self hps] by blast
next
  fix k
  assume sub: "set (dict_keys hps) \<subseteq> set (dict_keys (h (get_hps self)))"
    and k: "k \<in> set (dict_keys hps)"
  from sub have tw: "takeWhile (dict_contains (h (get_hps self))) (dict_keys hps) = dict_keys hps"
    unfolding takeWhile_eq_all_conv by (auto simp: dict_contains_def)
  have same: "self_after (set_hps h self hps) = self"
    using set_hps_char[of h self hps] by blast
  have "dict_getitem (heap_after (set_hps h self hps) (get_hps self)) k =
      (if k \<in> set (takeWhile (dict_contains (h (get_hps self))) (dict_keys hps))
       then dict_getitem hps k else dict_getitem (h (get_hps self)) k)"
    using set_hps_char[of h self hps] by blast
  with k show "dict_getitem
      (heap_after (set_hps h self hps) (get_hps (self_after (set_hps h self hps)))) k
      = dict_getitem hps k"
    by (simp only: tw same if_True)
qed

theorem set_hps_known_keys_witness:
  "set (dict_keys [(''lr_multiplier'', VList [VInt 2]), (''lr_policy'', VList [VStr ''linear''])])
     \<subseteq> set (dict_keys ((module_heap :: nat heap) (get_hps (init VNone :: (nat, int list) optimizer_base)))) \<and>
   outcome (set_hps (module_heap :: nat heap) (init VNone :: (nat, int list) optimizer_base)
      [(''lr_multiplier'', VList [VInt 2]), (''lr_policy'', VList [VStr ''linear''])])
     = Inr () \<and>
   dict_getitem
     (heap_after (set_hps (module_heap :: nat heap) (init VNone :: (nat, int list) optimizer_base)
        [(''lr_multiplier'', VList [VInt 2]), (''lr_policy'', VList [VStr ''linear''])])
       (get_hps (init VNone :: (nat, int list) optimizer_base)))
     ''lr_policy'' = Inr (VList [VStr ''linear'']) \<and>
   dict_getitem
     (heap_after (set_hps (module_heap :: nat heap) (init VNone :: (nat, int list) optimizer_base)
        [(''lr_multiplier'', VList [VInt 2]), (''lr_policy'', VList [VStr ''linear''])])
       (get_hps (init VNone :: (nat, int list) optimizer_base)))
     ''lr_multiplier'' = Inr (VList [VInt 2])"
  using
    set_hps_known_keys[of "module_heap :: nat heap" "init VNone :: (nat, int list) optimizer_base"
      "[(''lr_multiplier'', VList [VInt 2]), (''lr_policy'', VList [VStr ''linear''])]"]
  by (simp add: set_hps_def init_def get_hps_def module_heap_def default_hyper_params_def
      dict_keys_def dict_contains_def dict_getitem_def dict_setitem_def)

subsection \<open>The shared default dict\<close>

text \<open>
  Claim C9. \<open>__init__\<close> binds \<open>self._hyper_params\<close> to the dict object of the class
  attribute \<open>default_hyper_params\<close>, without a copy, so two instances \<open>A\<close> and \<open>B\<close> refer to
  the same dict. After a \<open>set_hps(hps)\<close> on \<open>A\<close> that returns normally, the dict that
  \<open>get_hps\<close> of \<open>B\<close> gives maps every key of \<open>hps\<close> to the value given to \<open>A\<close>, whatever
  the defaults were.
\<close>

theorem init_shares_default_hyper_params:
  "get_hps (init cfgA :: ('x, 'o) optimizer_base) = default_hyper_params \<and>
   get_hps (init cfgB :: ('x, 'o) optimizer_base) = default_hyper_params \<and>
   (outcome (set_hps h (init cfgA :: ('x, 'o) optimizer_base) hps) = Inr () \<longrightarrow>
      (\<forall>k \<in> set (dict_keys hps).
         dict_getitem
           (heap_after (set_hps h (init cfgA :: ('x, 'o) optimizer_base) hps)
              (get_hps (init cfgB :: ('x, 'o) optimizer_base))) k
           = dict_getitem hps k))"
proof (intro conjI impI ballI)
  show "get_hps (init cfgA :: ('x, 'o) optimizer_base) = default_hyper_params"
    by (simp add: get_hps_def init_def)
  show "get_hps (init cfgB :: ('x, 'o) optimizer_base) = default_hyper_params"
    by (simp add: get_hps_def init_def)
next
  fix k
  let ?A = "init cfgA :: ('x, 'o) optimizer_base"
  let ?B = "init cfgB :: ('x, 'o) optimizer_base"
  assume ok: "outcome (set_hps h ?A hps) = Inr ()" and k: "k \<in> set (dict_keys hps)"
  have same: "get_hps ?B = get_hps ?A"
    by (simp add: get_hps_def init_def)
  have "outcome (set_hps h ?A hps) =
     (if set (dict_keys hps) \<subseteq> set (dict_keys (h (get_hps ?A))) then Inr () else Inl KeyError)"
    using set_hps_char[of h ?A hps] by blast
  with ok have sub: "set (dict_keys hps) \<subseteq> set (dict_keys (h (get_hps ?A)))"
    by (simp split: if_splits)
  then have tw: "takeWhile (dict_contains (h (get_hps ?A))) (dict_keys hps) = dict_keys hps"
    unfolding takeWhile_eq_all_conv by (auto simp: dict_contains_def)
  have "dict_getitem (heap_after (set_hps h ?A hps) (get_hps ?A)) k =
      (if k \<in> set (takeWhile (dict_contains (h (get_hps ?A))) (dict_keys hps))
       then dict_getitem hps k else dict_getitem (h (get_hps ?A)) k)"
    using set_hps_char[of h ?A hps] by blast
  with k show "dict_getitem (heap_after (set_hps h ?A hps) (get_hps ?B)) k = dict_getitem hps k"
    by (simp only: tw same if_True)
qed

text \<open>
  Two instances on the heap of the freshly loaded module: after \<open>A.set_hps\<close> with
  \<open>lr_policy = ["linear"]\<close>, \<open>B.get_hps()\<close> has that value and not the default \<open>[]\<close>.
\<close>

theorem init_shares_default_hyper_params_witness:
  "outcome (set_hps (module_heap :: nat heap) (init (VStr ''A'') :: (nat, int list) optimizer_base)
      [(''lr_policy'', VList [VStr ''linear''])]) = Inr () \<and>
   (module_heap :: nat heap) (get_hps (init (VStr ''B'') :: (nat, int list) optimizer_base))
     = [(''lr_policy'', VList []), (''lr_multiplier'', VList [])] \<and>
   heap_after (set_hps (module_heap :: nat heap) (init (VStr ''A'') :: (nat, int list) optimizer_base)
      [(''lr_policy'', VList [VStr ''linear''])])
     (get_hps (init (VStr ''B'') :: (nat, int list) optimizer_base))
     = [(''lr_policy'', VList [VStr ''linear'']), (''lr_multiplier'', VList [])]"
  using
    init_shares_default_hyper_params[of "VStr ''A''" "VStr ''B''" "module_heap :: nat heap"
      "[(''lr_policy'', VList [VStr ''linear''])]", where ?'o = "int list"]
  by (simp add: set_hps_def init_def get_hps_def module_heap_def default_hyper_params_def
      dict_keys_def dict_contains_def dict_getitem_def dict_setitem_def)

subsection \<open>\<open>update_params\<close>\<close>

text \<open>
  Claim C3. Let the hyper-parameters \<open>lr_policy\<close> and \<open>lr_multiplier\<close> be lists, and let
  the builders return an object for every list they are called with. Then
  \<open>update_params\<close> returns normally, and the only change is to \<open>_state\<close>: the built policy
  is stored under \<open>lr_policy\<close> if the \<open>lr_policy\<close> list is not empty, and that entry is
  left as it was if the list is empty; the same for \<open>lr_multiplier\<close>. Nothing is assumed
  of a builder for the empty list, so its result is not used then.
\<close>

theorem update_params_builds_iff_nonempty:
  assumes "dict_getitem (h (get_hps self)) ''lr_policy'' = Inr (VList lr_policy_cfg)"
    and "dict_getitem (h (get_hps self)) ''lr_multiplier'' = Inr (VList lr_multiplier_cfg)"
    and "lr_policy_cfg \<noteq> [] \<Longrightarrow> build_lr_policy ext (VList lr_policy_cfg) = Inr lr_policy"
    and "lr_multiplier_cfg \<noteq> [] \<Longrightarrow>
           build_lr_multiplier ext (VList lr_multiplier_cfg) = Inr lr_multiplier"
  shows "outcome (update_params ext h self) = Inr () \<and>
    heap_after (update_params ext h self) = h \<and>
    self_after (update_params ext h self) =
      self\<lparr>self_state :=
        (if lr_multiplier_cfg \<noteq> []
         then dict_setitem
                (if lr_policy_cfg \<noteq> []
                 then dict_setitem (self_state self) ''lr_policy'' lr_policy
                 else self_state self)
                ''lr_multiplier'' lr_multiplier
         else (if lr_policy_cfg \<noteq> []
               then dict_setitem (self_state self) ''lr_policy'' lr_policy
               else self_state self))\<rparr> \<and>
    dict_getitem (self_state (self_after (update_params ext h self))) ''lr_policy'' =
      (if lr_policy_cfg \<noteq> [] then Inr lr_policy
       else dict_getitem (self_state self) ''lr_policy'') \<and>
    dict_getitem (self_state (self_after (update_params ext h self))) ''lr_multiplier'' =
      (if lr_multiplier_cfg \<noteq> [] then Inr lr_multiplier
       else dict_getitem (self_state self) ''lr_multiplier'')"
proof -
  have pol: "update_lr_policy ext h self =
      Inr (if lr_policy_cfg \<noteq> []
           then self\<lparr>self_state := dict_setitem (self_state self) ''lr_policy'' lr_policy\<rparr>
           else self)"
    using assms(1,3) by (simp add: update_lr_policy_def get_hps_def)
  have mul: "update_lr_multiplier ext h s =
      Inr (if lr_multiplier_cfg \<noteq> []
           then s\<lparr>self_state := dict_setitem (self_state s) ''lr_multiplier'' lr_multiplier\<rparr>
           else s)"
    if "self_hyper_params s = self_hyper_params self" for s
    using assms(2,4) that by (simp add: update_lr_multiplier_def get_hps_def)
  show ?thesis
    by (simp add: update_params_def pol mul getitem_setitem)
qed

theorem update_params_builds_iff_nonempty_witness:
  "dict_getitem
     (heap_after (set_hps module_heap (init VNone :: (nat, int list) optimizer_base)
        [(''lr_multiplier'', VList [VStr ''backbone''])])
       (get_hps (init VNone :: (nat, int list) optimizer_base)))
     ''lr_policy'' = Inr (VList []) \<and>
   dict_getitem
     (heap_after (set_hps module_heap (init VNone :: (nat, int list) optimizer_base)
        [(''lr_multiplier'', VList [VStr ''backbone''])])
       (get_hps (init VNone :: (nat, int list) optimizer_base)))
     ''lr_multiplier'' = Inr (VList [VStr ''backbone'']) \<and>
   build_lr_multiplier demo_externals (VList [VStr ''backbone'']) = Inr (VObj 2) \<and>
   outcome (update_params demo_externals
     (heap_after (set_hps module_heap (init VNone :: (nat, int list) optimizer_base)
        [(''lr_multiplier'', VList [VStr ''backbone''])]))
     (init VNone)) = Inr () \<and>
   self_state (self_after (update_params demo_externals
     (heap_after (set_hps module_heap (init VNone :: (nat, int list) optimizer_base)
        [(''lr_multiplier'', VList [VStr ''backbone''])]))
     (init VNone))) = [(''lr_multiplier'', VObj 2)] \<and>
   dict_getitem
     (heap_after (set_hps module_heap (init VNone :: (nat, int list) optimizer_base)
        [(''lr_policy'', VList [VStr ''linear''])])
       (get_hps (init VNone :: (nat, int list) optimizer_base)))
     ''lr_policy'' = Inr (VList [VStr ''linear'']) \<and>
   dict_getitem
     (heap_after (set_hps module_heap (init VNone :: (nat, int list) optimizer_base)
        [(''lr_policy'', VList [VStr ''linear''])])
       (get_hps (init VNone :: (nat, int list) optimizer_base)))
     ''lr_multiplier'' = Inr (VList []) \<and>
   build_lr_policy demo_externals (VList [VStr ''linear'']) = Inr (VObj 1) \<and>
   outcome (update_params demo_externals
     (heap_after (set_hps module_heap (init VNone :: (nat, int list) optimizer_base)
        [(''lr_policy'', VList [VStr ''linear''])]))
     (init VNone)) = Inr () \<and>
   self_state (self_after (update_params demo_externals
     (heap_after (set_hps module_heap (init VNone :: (nat, int list) optimizer_base)
        [(''lr_policy'', VList [VStr ''linear''])]))
     (init VNone))) = [(''lr_policy'', VObj 1)]"
  using
    update_params_builds_iff_nonempty[of
      "heap_after (set_hps module_heap (init VNone :: (nat, int list) optimizer_base)
         [(''lr_multiplier'', VList [VStr ''backbone''])])"
      "init VNone :: (nat, int list) optimizer_base"
      "[]" "[VStr ''backbone'']" demo_externals "VObj 1" "VObj 2"]
    update_params_builds_iff_nonempty[of
      "heap_after (set_hps module_heap (init VNone :: (nat, int list) optimizer_base)
         [(''lr_policy'', VList [VStr ''linear''])])"
      "init VNone :: (nat, int list) optimizer_base"
      "[VStr ''linear'']" "[]" demo_externals "VObj 1" "VObj 2"]
  by (simp add: set_hps_def init_def get_hps_def module_heap_def default_hyper_params_def
      dict_keys_def dict_contains_def dict_getitem_def dict_setitem_def demo_externals_def)

text \<open>
  Claim C4, as the code has it. With both hyper-parameter lists empty, \<open>update_params\<close>
  returns normally and changes nothing: \<open>_state\<close> has the key \<open>lr_policy\<close> (or
  \<open>lr_multiplier\<close>) after the call exactly when it had it before. So \<open>_state\<close> is without
  the two keys after the call when it was without them before, as on a fresh instance;
  the method never removes an entry.
\<close>

theorem update_params_empty_lists:
  assumes "dict_getitem (h (get_hps self)) ''lr_policy'' = Inr (VList [])"
    and "dict_getitem (h (get_hps self)) ''lr_multiplier'' = Inr (VList [])"
  shows "update_params ext h self = (Inr (), h, self) \<and>
    dict_contains (self_state (self_after (update_params ext h self))) ''lr_policy'' =
      dict_contains (self_state self) ''lr_policy'' \<and>
    dict_contains (self_state (self_after (update_params ext h self))) ''lr_multiplier'' =
      dict_contains (self_state self) ''lr_multiplier''"
proof -
  have "update_lr_policy ext h self = Inr self"
    using assms(1) by (simp add: update_lr_policy_def get_hps_def)
  moreover have "update_lr_multiplier ext h self = Inr self"
    using assms(2) by (simp add: update_lr_multiplier_def get_hps_def)
  ultimately have "update_params ext h self = (Inr (), h, self)"
    by (simp add: update_params_def)
  then show ?thesis
    by simp
qed

theorem update_params_empty_lists_witness:
  "dict_getitem ((module_heap :: nat heap) (get_hps (init VNone :: (nat, int list) optimizer_base)))
     ''lr_policy'' = Inr (VList []) \<and>
   dict_getitem ((module_heap :: nat heap) (get_hps (init VNone :: (nat, int list) optimizer_base)))
     ''lr_multiplier'' = Inr (VList []) \<and>
   update_params demo_externals module_heap (init VNone) = (Inr (), module_heap, init VNone) \<and>
   \<not> dict_contains (self_state (self_after (update_params demo_externals module_heap (init VNone))))
       ''lr_policy'' \<and>
   \<not> dict_contains (self_state (self_after (update_params demo_externals module_heap (init VNone))))
       ''lr_multiplier''"
  using
    update_params_empty_lists[of "module_heap :: nat heap"
      "init VNone :: (nat, int list) optimizer_base" demo_externals]
  by (simp add: init_def get_hps_def module_heap_def default_hyper_params_def
      dict_keys_def dict_contains_def dict_getitem_def)

text \<open>
  The claim as the specification words it fails for a state that already has the key.
  After the run \<open>policy_cleared\<close> both lists are empty again, and \<open>update_params\<close> leaves
  the policy built earlier in \<open>_state\<close>.
\<close>

theorem update_params_empty_lists_counterexample:
  "dict_getitem (heap_after policy_cleared (get_hps (self_after policy_cleared))) ''lr_policy''
     = Inr (VList []) \<and>
   dict_getitem (heap_after policy_cleared (get_hps (self_after policy_cleared))) ''lr_multiplier''
     = Inr (VList []) \<and>
   outcome (update_params demo_externals (heap_after policy_cleared) (self_after policy_cleared))
     = Inr () \<and>
   dict_contains
     (self_state (self_after
        (update_params demo_externals (heap_after policy_cleared) (self_after policy_cleared))))
     ''lr_policy''"
  by (simp add: policy_cleared_def policy_configured_def update_params_def update_lr_policy_def
      update_lr_multiplier_def set_hps_def init_def get_hps_def module_heap_def
      default_hyper_params_def dict_keys_def dict_contains_def dict_getitem_def dict_setitem_def
      demo_externals_def)

subsection \<open>\<open>build_optimizer\<close>\<close>

text \<open>
  Claim C5. With a multiplier object in \<open>_state\<close>, \<open>build_optimizer\<close> stores under
  \<open>params\<close> what that object's \<open>divide_into_param_groups\<close> returns for the model; with no
  \<open>lr_multiplier\<close> entry and a registered model, it stores what the model's \<open>parameters\<close>
  returns. Nothing else changes.
\<close>

theorem build_optimizer_params:
  "(dict_getitem (self_state self) ''lr_multiplier'' = Inr (VObj m) \<and>
    divide_into_param_groups ext m (self_model self) = Inr groups \<longrightarrow>
      build_optimizer ext h self =
        (Inr (), h, self\<lparr>self_state := dict_setitem (self_state self) ''params'' groups\<rparr>) \<and>
      dict_getitem (self_state (self_after (build_optimizer ext h self))) ''params'' = Inr groups) \<and>
   (\<not> dict_contains (self_state self) ''lr_multiplier'' \<and>
    self_model self = VObj model \<and> parameters ext model = Inr ps \<longrightarrow>
      build_optimizer ext h self =
        (Inr (), h, self\<lparr>self_state := dict_setitem (self_state self) ''params'' ps\<rparr>) \<and>
      dict_getitem (self_state (self_after (build_optimizer ext h self))) ''params'' = Inr ps)"
proof (intro conjI impI)
  assume a: "dict_getitem (self_state self) ''lr_multiplier'' = Inr (VObj m) \<and>
    divide_into_param_groups ext m (self_model self) = Inr groups"
  then have "dict_contains (self_state self) ''lr_multiplier''"
    by (auto simp: contains_getitem)
  with a show b: "build_optimizer ext h self =
      (Inr (), h, self\<lparr>self_state := dict_setitem (self_state self) ''params'' groups\<rparr>)"
    by (simp add: build_optimizer_def)
  show "dict_getitem (self_state (self_after (build_optimizer ext h self))) ''params'' = Inr groups"
    by (simp add: b getitem_setitem)
next
  assume a: "\<not> dict_contains (self_state self) ''lr_multiplier'' \<and>
    self_model self = VObj model \<and> parameters ext model = Inr ps"
  then show b: "build_optimizer ext h self =
      (Inr (), h, self\<lparr>self_state := dict_setitem (self_state self) ''params'' ps\<rparr>)"
    by (simp add: build_optimizer_def)
  show "dict_getitem (self_state (self_after (build_optimizer ext h self))) ''params'' = Inr ps"
    by (simp add: b getitem_setitem)
qed

theorem build_optimizer_params_witness:
  "dict_getitem (self_state multiplier_self) ''lr_multiplier'' = Inr (VObj 2) \<and>
   divide_into_param_groups demo_externals 2 (self_model multiplier_self)
     = Inr (VList [VObj 5, VObj 2]) \<and>
   outcome (build_optimizer demo_externals module_heap multiplier_self) = Inr () \<and>
   self_state (self_after (build_optimizer demo_externals module_heap multiplier_self))
     = [(''lr_multiplier'', VObj 2), (''params'', VList [VObj 5, VObj 2])] \<and>
   \<not> dict_contains (self_state plain_self) ''lr_multiplier'' \<and>
   self_model plain_self = VObj 5 \<and>
   parameters demo_externals 5 = Inr (VList [VObj 5]) \<and>
   outcome (build_optimizer demo_externals module_heap plain_self) = Inr () \<and>
   self_state (self_after (build_optimizer demo_externals module_heap plain_self))
     = [(''params'', VList [VObj 5])]"
  using
    build_optimizer_params[of multiplier_self 2 demo_externals "VList [VObj 5, VObj 2]"
      "module_heap :: nat heap" 5 "VList [VObj 5]"]
    build_optimizer_params[of plain_self 2 demo_externals "VList [VObj 5, VObj 2]"
      "module_heap :: nat heap" 5 "VList [VObj 5]"]
  by (simp add: multiplier_self_def plain_self_def demo_externals_def
      dict_keys_def dict_contains_def dict_getitem_def dict_setitem_def)

subsection \<open>\<open>schedule\<close>\<close>

text \<open>
  Claim C6, as the code has it. With a policy object in \<open>_state\<close>, \<open>schedule\<close> asks it
  for the learning rate of the given epoch and iteration and hands the rate and the
  optimizer to \<open>schedule_lr\<close>; with a multiplier object in \<open>_state\<close>, it then calls that
  object's \<open>multiply_lr\<close> on the optimizer. When these calls return normally, \<open>schedule\<close>
  returns a dict that holds the rate under \<open>lr\<close> if there is a policy and is empty
  otherwise, and the only change is to the optimizer.
\<close>

theorem schedule_applies:
  assumes "dict_contains (self_state self) ''lr_policy'' \<Longrightarrow>
      dict_getitem (self_state self) ''lr_policy'' = Inr (VObj p) \<and>
      get_lr ext p epoch iteration = Inr lr \<and>
      schedule_lr ext (self_optimizer self) lr = (Inr (), opt1)"
    and "\<not> dict_contains (self_state self) ''lr_policy'' \<Longrightarrow> opt1 = self_optimizer self"
    and "dict_contains (self_state self) ''lr_multiplier'' \<Longrightarrow>
      dict_getitem (self_state self) ''lr_multiplier'' = Inr (VObj m) \<and>
      multiply_lr ext m opt1 = (Inr (), opt2)"
    and "\<not> dict_contains (self_state self) ''lr_multiplier'' \<Longrightarrow> opt2 = opt1"
  shows "schedule ext h self epoch iteration =
    (Inr (if dict_contains (self_state self) ''lr_policy'' then [(''lr'', lr)] else []),
     h, self\<lparr>self_optimizer := opt2\<rparr>)"
proof -
  have pol: "schedule_lr_policy ext self epoch iteration =
      (Inr (if dict_contains (self_state self) ''lr_policy'' then [(''lr'', lr)] else []),
       self\<lparr>self_optimizer := opt1\<rparr>)"
    using assms(1,2)
    by (cases "dict_contains (self_state self) ''lr_policy''")
       (simp_all add: schedule_lr_policy_def dict_setitem_def)
  have mul: "schedule_lr_multiplier ext (self\<lparr>self_optimizer := opt1\<rparr>) =
      (Inr (), self\<lparr>self_optimizer := opt2\<rparr>)"
    using assms(3,4)
    by (cases "dict_contains (self_state self) ''lr_multiplier''")
       (simp_all add: schedule_lr_multiplier_def)
  show ?thesis
    by (simp add: schedule_def pol mul)
qed

theorem schedule_applies_witness:
  "dict_contains (self_state both_self) ''lr_policy'' \<and>
   dict_getitem (self_state both_self) ''lr_policy'' = Inr (VObj 1) \<and>
   get_lr demo_externals 1 3 0 = Inr (VInt 97) \<and>
   schedule_lr demo_externals (self_optimizer both_self) (VInt 97) = (Inr (), Some [97, 97]) \<and>
   dict_contains (self_state both_self) ''lr_multiplier'' \<and>
   dict_getitem (self_state both_self) ''lr_multiplier'' = Inr (VObj 2) \<and>
   multiply_lr demo_externals 2 (Some [97, 97]) = (Inr (), Some [194, 194]) \<and>
   schedule demo_externals module_heap both_self 3 0 =
     (Inr [(''lr'', VInt 97)], module_heap, both_self\<lparr>self_optimizer := Some [194, 194]\<rparr>) \<and>
   \<not> dict_contains (self_state plain_self) ''lr_policy'' \<and>
   \<not> dict_contains (self_state plain_self) ''lr_multiplier'' \<and>
   schedule demo_externals module_heap plain_self 3 0 = (Inr [], module_heap, plain_self)"
proof -
  have pol: "dict_contains (self_state both_self) ''lr_policy''"
    and mul: "dict_contains (self_state both_self) ''lr_multiplier''"
    by (simp_all add: both_self_def dict_contains_def dict_keys_def)
  have p: "dict_getitem (self_state both_self) ''lr_policy'' = Inr (VObj 1)"
    and m: "dict_getitem (self_state both_self) ''lr_multiplier'' = Inr (VObj 2)"
    by (simp_all add: both_self_def dict_getitem_def)
  have lr: "get_lr demo_externals 1 3 0 = Inr (VInt 97)"
    by (simp add: demo_externals_def)
  have s: "schedule_lr demo_externals (self_optimizer both_self) (VInt 97) = (Inr (), Some [97, 97])"
    by (simp add: demo_externals_def both_self_def)
  have x: "multiply_lr demo_externals 2 (Some [97, 97]) = (Inr (), Some [194, 194])"
    by (simp add: demo_externals_def)
  have "schedule demo_externals module_heap both_self 3 0 =
    (Inr (if dict_contains (self_state both_self) ''lr_policy'' then [(''lr'', VInt 97)] else []),
     module_heap, both_self\<lparr>self_optimizer := Some [194, 194]\<rparr>)"
    by (rule schedule_applies[where p = 1 and m = 2 and ?opt1.0 = "Some [97, 97]"])
       (simp_all add: pol mul p m lr s x del: One_nat_def)
  then have both: "schedule demo_externals module_heap both_self 3 0 =
     (Inr [(''lr'', VInt 97)], module_heap, both_self\<lparr>self_optimizer := Some [194, 194]\<rparr>)"
    by (simp only: pol if_True)
  have npol: "\<not> dict_contains (self_state plain_self) ''lr_policy''"
    and nmul: "\<not> dict_contains (self_state plain_self) ''lr_multiplier''"
    by (simp_all add: plain_self_def dict_contains_def dict_keys_def)
  have opt: "Some [10, 20] = self_optimizer plain_self"
    by (simp add: plain_self_def)
  have same: "plain_self\<lparr>self_optimizer := Some [10, 20]\<rparr> = plain_self"
    by (simp add: plain_self_def)
  have "schedule demo_externals module_heap plain_self 3 0 =
    (Inr (if dict_contains (self_state plain_self) ''lr_policy'' then [(''lr'', VInt 97)] else []),
     module_heap, plain_self\<lparr>self_optimizer := Some [10, 20]\<rparr>)"
    by (rule schedule_applies[where p = 1 and m = 2 and ?opt1.0 = "Some [10, 20]"])
       (simp_all add: npol nmul opt del: One_nat_def)
  then have plain: "schedule demo_externals module_heap plain_self 3 0 =
      (Inr [], module_heap, plain_self)"
    by (simp only: same npol if_False)
  from pol mul p m lr s x both npol nmul plain show ?thesis
    by (intro conjI)
qed

text \<open>
  The claim as the specification words it fails in its last part: an adjustment by the
  multiplier is not reflected in the returned dict. With a multiplier and no policy the
  learning rates of the optimizer go from \<open>[10, 20]\<close> to \<open>[20, 40]\<close> and the dict is empty.
\<close>

theorem schedule_applies_counterexample:
  "dict_contains (self_state multiplier_self) ''lr_multiplier'' \<and>
   self_optimizer multiplier_self = Some [10, 20] \<and>
   self_optimizer (self_after (schedule demo_externals module_heap multiplier_self 3 0))
     = Some [20, 40] \<and>
   outcome (schedule demo_externals module_heap multiplier_self 3 0) = Inr []"
  by (simp add: schedule_def schedule_lr_policy_def schedule_lr_multiplier_def
      multiplier_self_def demo_externals_def dict_keys_def dict_contains_def dict_getitem_def)

text \<open>
  Claim C7. With neither \<open>lr_policy\<close> nor \<open>lr_multiplier\<close> in \<open>_state\<close>, \<open>schedule\<close>
  returns the empty dict for every epoch and iteration, whatever the external code is,
  and changes nothing: the optimizer, the instance and the heap are as before.
\<close>

theorem schedule_nothing_stored:
  assumes "\<not> dict_contains (self_state self) ''lr_policy''"
    and "\<not> dict_contains (self_state self) ''lr_multiplier''"
  shows "schedule ext h self epoch iteration = (Inr [], h, self) \<and>
    self_optimizer (self_after (schedule ext h self epoch iteration)) = self_optimizer self"
  using assms
  by (simp add: schedule_def schedule_lr_policy_def schedule_lr_multiplier_def)

theorem schedule_nothing_stored_witness:
  "\<not> dict_contains (self_state (init VNone :: (nat, int list) optimizer_base)) ''lr_policy'' \<and>
   \<not> dict_contains (self_state (init VNone :: (nat, int list) optimizer_base)) ''lr_multiplier'' \<and>
   schedule demo_externals module_heap (init VNone) 7 250 = (Inr [], module_heap, init VNone) \<and>
   self_optimizer (self_after (schedule demo_externals module_heap
      ((init VNone :: (nat, int list) optimizer_base)\<lparr>self_optimizer := Some [10, 20]\<rparr>) 7 250))
     = Some [10, 20]"
  using
    schedule_nothing_stored[of "init VNone :: (nat, int list) optimizer_base"
      demo_externals "module_heap :: nat heap" 7 250]
    schedule_nothing_stored[of
      "(init VNone :: (nat, int list) optimizer_base)\<lparr>self_optimizer := Some [10, 20]\<rparr>"
      demo_externals "module_heap :: nat heap" 7 250]
  by (simp add: init_def dict_keys_def dict_contains_def)

text \<open>
  Claim C10. Whenever \<open>schedule\<close> returns a dict, its keys are \<open>lr\<close> alone if \<open>_state\<close> has
  an \<open>lr_policy\<close> entry and none at all otherwise, and the value under \<open>lr\<close> is the rate the
  policy object gave. So the dict has no entry for the multiplier, applied or not.
\<close>

theorem schedule_report_keys:
  assumes "outcome (schedule ext h self epoch iteration) = Inr schedule_info"
  shows "set (dict_keys schedule_info) \<subseteq> {''lr''} \<and>
    dict_contains schedule_info ''lr'' = dict_contains (self_state self) ''lr_policy'' \<and>
    dict_keys schedule_info =
      (if dict_contains (self_state self) ''lr_policy'' then [''lr''] else []) \<and>
    (\<forall>v. dict_getitem schedule_info ''lr'' = Inr v \<longrightarrow>
       (\<exists>p. dict_getitem (self_state self) ''lr_policy'' = Inr (VObj p) \<and>
            get_lr ext p epoch iteration = Inr v))"
proof -
  obtain self1 where pol: "schedule_lr_policy ext self epoch iteration = (Inr schedule_info, self1)"
    using assms
    by (cases "schedule_lr_policy ext self epoch iteration")
       (auto simp: schedule_def split: sum.splits prod.splits)
  show ?thesis
  proof (cases "dict_contains (self_state self) ''lr_policy''")
    case False
    with pol have "schedule_info = []"
      by (simp add: schedule_lr_policy_def)
    with False show ?thesis
      by (simp add: dict_keys_def dict_contains_def dict_getitem_def)
  next
    case True
    then obtain v where v: "dict_getitem (self_state self) ''lr_policy'' = Inr v"
      by (auto simp: contains_getitem)
    from pol True v obtain lr where
      call: "call_method v (\<lambda>p. get_lr ext p epoch iteration) = Inr lr"
      by (cases "call_method v (\<lambda>p. get_lr ext p epoch iteration)")
         (simp_all add: schedule_lr_policy_def)
    then obtain p where p: "v = VObj p" and lr: "get_lr ext p epoch iteration = Inr lr"
      by (cases v) simp_all
    from pol True v call have info: "schedule_info = dict_setitem [] ''lr'' lr"
      by (cases "schedule_lr ext (self_optimizer self) lr")
         (auto simp: schedule_lr_policy_def split: sum.splits)
    have keys: "dict_keys schedule_info = [''lr'']"
      by (simp add: info dict_keys_def dict_setitem_def)
    have get: "dict_getitem schedule_info ''lr'' = Inr lr"
      by (simp add: info dict_getitem_def dict_setitem_def)
    from True keys get v p lr show ?thesis
      by (simp add: dict_contains_def)
  qed
qed

theorem schedule_report_keys_witness:
  "outcome (schedule demo_externals module_heap both_self 3 0) = Inr [(''lr'', VInt 97)] \<and>
   dict_contains (self_state both_self) ''lr_policy'' \<and>
   dict_contains (self_state both_self) ''lr_multiplier'' \<and>
   self_optimizer (self_after (schedule demo_externals module_heap both_self 3 0))
     = Some [194, 194] \<and>
   dict_keys [(''lr'', VInt 97) :: string \<times> nat pyval] = [''lr'']"
  using
    schedule_report_keys[of demo_externals "module_heap :: nat heap" both_self 3 0
      "[(''lr'', VInt 97)]"]
  by (simp add: schedule_def schedule_lr_policy_def schedule_lr_multiplier_def
      both_self_def demo_externals_def dict_keys_def dict_contains_def dict_getitem_def
      dict_setitem_def)

subsection \<open>Delegation to the underlying optimizer\<close>

text \<open>
  Claim C8. With an optimizer set, \<open>zero_grad\<close>, \<open>step\<close> and \<open>state_dict\<close> each make the
  one call of the optimizer's method of the same name: the optimizer afterwards is what
  that method leaves, an exception of the method is the exception of the wrapper's
  method, \<open>state_dict\<close> returns the method's result as it is, and \<open>zero_grad\<close> and
  \<open>step\<close> return nothing. The outcome is a function of the optimizer alone, and
  \<open>_hyper_params\<close>, \<open>_state\<close>, \<open>_model\<close>, \<open>_cfg\<close> and the heap are unchanged.
\<close>

theorem optimizer_delegation:
  assumes "self_optimizer self = Some opt"
  shows "zero_grad ext h self =
      ((case fst (optimizer_zero_grad ext opt) of Inl e \<Rightarrow> Inl e | Inr v \<Rightarrow> Inr ()),
       h, self\<lparr>self_optimizer := Some (snd (optimizer_zero_grad ext opt))\<rparr>) \<and>
    step ext h self =
      ((case fst (optimizer_step ext opt) of Inl e \<Rightarrow> Inl e | Inr v \<Rightarrow> Inr ()),
       h, self\<lparr>self_optimizer := Some (snd (optimizer_step ext opt))\<rparr>) \<and>
    state_dict ext h self =
      (fst (optimizer_state_dict ext opt),
       h, self\<lparr>self_optimizer := Some (snd (optimizer_state_dict ext opt))\<rparr>)"
  using assms
  by (simp add: zero_grad_def step_def state_dict_def split: prod.splits sum.splits)

theorem optimizer_delegation_witness:
  "self_optimizer both_self = Some [10, 20] \<and>
   zero_grad demo_externals module_heap both_self = (Inr (), module_heap, both_self) \<and>
   step demo_externals module_heap both_self =
     (Inr (), module_heap, both_self\<lparr>self_optimizer := Some [9, 19]\<rparr>) \<and>
   state_dict demo_externals module_heap both_self =
     (Inr (VList [VInt 10, VInt 20]), module_heap, both_self)"
  using optimizer_delegation[of both_self "[10, 20]" demo_externals "module_heap :: nat heap"]
  by (simp add: both_self_def demo_externals_def)

end
